theory Spec2Isabelle
  imports Main "HOL-Library.Word"
begin

section \<open>JavaScript strings\<close>

text \<open>
  A JavaScript string is a sequence of UTF-16 code units; \<open>length\<close>, \<open>split\<close>,
  \<open>trim\<close>, \<open>includes\<close> and the regular expression class \<open>\s\<close> all work on
  code units. The literals of \<open>App.tsx\<close> are ASCII and are written through \<open>js\<close>.
\<close>

type_synonym code_unit = "16 word"
type_synonym jsstring = "code_unit list"

definition js :: "string \<Rightarrow> jsstring" where
  "js s = map of_char s"

text \<open>
  ECMAScript white space and line terminators: the characters removed by
  \<open>String.prototype.trim\<close> and matched by \<open>\s\<close>.
\<close>

definition is_ws :: "code_unit \<Rightarrow> bool" where
  "is_ws c =
     (c = 0x0009 \<or> c = 0x000A \<or> c = 0x000B \<or> c = 0x000C \<or> c = 0x000D \<or>
      c = 0x0020 \<or> c = 0x00A0 \<or> c = 0x1680 \<or> (0x2000 \<le> c \<and> c \<le> 0x200A) \<or>
      c = 0x2028 \<or> c = 0x2029 \<or> c = 0x202F \<or> c = 0x205F \<or> c = 0x3000 \<or>
      c = 0xFEFF)"

definition comma :: code_unit where
  "comma = 0x2C"

definition underscore :: code_unit where
  "underscore = 0x5F"

text \<open>\<open>s.split(sep)\<close> for a one-character separator; \<open>''''.split(',')\<close> is \<open>['''']\<close>.\<close>

fun split_js :: "code_unit \<Rightarrow> jsstring \<Rightarrow> jsstring list" where
  "split_js sep [] = [[]]"
| "split_js sep (c # cs) =
     (if c = sep then [] # split_js sep cs
      else (case split_js sep cs of
              [] \<Rightarrow> [[c]]
            | w # ws \<Rightarrow> (c # w) # ws))"

text \<open>\<open>s.trim()\<close>: white space removed from both ends.\<close>

definition trim :: "jsstring \<Rightarrow> jsstring" where
  "trim s = rev (dropWhile is_ws (rev (dropWhile is_ws s)))"

text \<open>\<open>s.includes(m)\<close>: \<open>m\<close> occurs in \<open>s\<close> as a contiguous run.\<close>

fun startsWith :: "jsstring \<Rightarrow> jsstring \<Rightarrow> bool" where
  "startsWith s [] = True"
| "startsWith [] (m # ms) = False"
| "startsWith (c # cs) (m # ms) = (c = m \<and> startsWith cs ms)"

fun includes_js :: "jsstring \<Rightarrow> jsstring \<Rightarrow> bool" where
  "includes_js [] m = startsWith [] m"
| "includes_js (c # cs) m = (startsWith (c # cs) m \<or> includes_js cs m)"

text \<open>
  \<open>s.replace(/\s+/g, '_')\<close>: scanning from the left, every maximal run of white
  space is replaced by one underscore; all other code units are kept.
\<close>

function replace_ws :: "jsstring \<Rightarrow> jsstring" where
  "replace_ws [] = []"
| "replace_ws (c # cs) =
     (if is_ws c then underscore # replace_ws (dropWhile is_ws cs)
      else c # replace_ws cs)"
  by pat_completeness auto
termination
  by (relation "measure length") (auto simp: length_dropWhile_le less_Suc_eq_le)


section \<open>Data model\<close>

text \<open>
  \<open>ResumeData\<close> as \<open>App.tsx\<close> declares it: the type inferred from \<open>resumeSchema\<close>
  (\<open>cgpa\<close> is optional there) extended by the optional \<open>linkedinAbout\<close>.
\<close>

record Project =
  title :: jsstring
  description :: jsstring
  technologies :: jsstring

record Activity =
  role :: jsstring
  achievements :: jsstring

record ResumeData =
  name :: jsstring
  email :: jsstring
  phone :: jsstring
  linkedin :: jsstring
  github :: jsstring
  location :: jsstring
  college :: jsstring
  degree :: jsstring
  year :: jsstring
  cgpa :: "jsstring option"
  technicalSkills :: jsstring
  softSkills :: jsstring
  projects :: "Project list"
  activities :: "Activity list"
  linkedinAbout :: "jsstring option"


section \<open>The scoring engine: \<open>calculateResumeScore\<close>\<close>

text \<open>
  The function returns the object \<open>{ score, feedback }\<close>. Its body works on a frame
  that holds the two locals \<open>score\<close> and \<open>feedback\<close> beside the two arguments
  \<open>data\<close> and \<open>summary\<close>; every statement is a transformer of that frame, so that
  what a call writes is visible in the model.
\<close>

record result =
  score :: int
  feedback :: "jsstring list"

record frame = result +
  data :: ResumeData
  summary :: jsstring

text \<open>\<open>score += n\<close> and \<open>feedback.push(m)\<close>.\<close>

definition add_score :: "int \<Rightarrow> frame \<Rightarrow> frame" where
  "add_score n fr = fr\<lparr>score := score fr + n\<rparr>"

definition push :: "jsstring \<Rightarrow> frame \<Rightarrow> frame" where
  "push m fr = fr\<lparr>feedback := feedback fr @ [m]\<rparr>"

text \<open>Entry of a call: \<open>let score = 0; const feedback: string[] = [];\<close>\<close>

definition enter :: "ResumeData \<Rightarrow> jsstring \<Rightarrow> frame" where
  "enter d s = \<lparr>score = 0, feedback = [], data = d, summary = s\<rparr>"

text \<open>Personal Details (10 points). A string is truthy when it is not empty.\<close>

definition personal_details :: "frame \<Rightarrow> frame" where
  "personal_details fr =
     (if name (data fr) \<noteq> [] \<and> email (data fr) \<noteq> [] \<and> phone (data fr) \<noteq> []
      then add_score 10 fr
      else push (js ''Complete your personal contact information.'') fr)"

text \<open>Education (15 points).\<close>

definition education :: "frame \<Rightarrow> frame" where
  "education fr =
     (if college (data fr) \<noteq> [] \<and> degree (data fr) \<noteq> []
      then add_score 15 fr
      else push (js ''Add your college and degree details.'') fr)"

text \<open>
  Skills (20 points):
  \<open>data.technicalSkills.split(',').filter(s => s.trim().length > 0).length\<close>.
\<close>

definition skillsCount :: "ResumeData \<Rightarrow> nat" where
  "skillsCount d =
     length (filter (\<lambda>s. length (trim s) > 0) (split_js comma (technicalSkills d)))"

definition skills :: "frame \<Rightarrow> frame" where
  "skills fr =
     (if skillsCount (data fr) \<ge> 8 then add_score 20 fr
      else if skillsCount (data fr) \<ge> 5 then
        push (js ''Try adding at least 8 technical skills for better visibility.'')
          (add_score 10 fr)
      else if skillsCount (data fr) \<ge> 3 then
        push (js ''Your skills section is a bit thin. Aim for 5-8 key skills.'')
          (add_score 5 fr)
      else push (js ''Add more technical skills to showcase your expertise.'') fr)"

text \<open>Projects (25 points); \<open>hasLongDesc\<close> is \<open>projects.some(p => p.description.length > 40)\<close>.\<close>

definition hasLongDesc :: "ResumeData \<Rightarrow> bool" where
  "hasLongDesc d = list_ex (\<lambda>p. length (description p) > 40) (projects d)"

definition projects_step :: "frame \<Rightarrow> frame" where
  "projects_step fr =
     (if length (projects (data fr)) > 0 then
        (let fr1 = add_score 10 fr in
         if hasLongDesc (data fr1) then add_score 15 fr1
         else push (js ''Expand your project descriptions to be more detailed (aim for 40+ characters).'') fr1)
      else push (js ''Add at least one project to demonstrate practical experience.'') fr)"

text \<open>Activities (10 points).\<close>

definition activities_step :: "frame \<Rightarrow> frame" where
  "activities_step fr =
     (if length (activities (data fr)) > 0 then add_score 10 fr
      else push (js ''Include extracurricular activities or club roles.'') fr)"

text \<open>LinkedIn About (20 points).\<close>

definition api_key_marker :: jsstring where
  "api_key_marker = js ''(Note: Gemini API key is missing''"

definition linkedin_about :: "frame \<Rightarrow> frame" where
  "linkedin_about fr =
     (if summary fr \<noteq> [] \<and> \<not> includes_js (summary fr) api_key_marker
      then add_score 20 fr
      else push (js ''Generate an AI LinkedIn summary to boost your profile score.'') fr)"

text \<open>The six blocks in the order of the source, and the returned object.\<close>

definition body :: "frame \<Rightarrow> frame" where
  "body fr =
     linkedin_about (activities_step (projects_step (skills (education (personal_details fr)))))"

definition calculateResumeScore :: "ResumeData \<Rightarrow> jsstring \<Rightarrow> result" where
  "calculateResumeScore d s =
     (let fr = body (enter d s) in \<lparr>score = score fr, feedback = feedback fr\<rparr>)"


section \<open>The summary generator: \<open>generateSummary\<close>\<close>

text \<open>
  The component \<open>ResumePreview\<close> holds three pieces of state; the session adds what
  leaves the component: the requests sent to \<open>ai.models.generateContent\<close> and the
  file names handed to \<open>pdf.save\<close>.
\<close>

record request =
  model :: jsstring
  contents :: jsstring

record session =
  isGenerating :: bool
  aiSummary :: jsstring
  loadingAi :: bool
  requests :: "request list"
  saved :: "jsstring list"

text \<open>
  What the awaited call does: it throws (any transport or service failure), or it
  resolves to a response whose \<open>text\<close> may be undefined.
\<close>

datatype reply = Failure | Response "jsstring option"

definition missing_key_summary :: jsstring where
  "missing_key_summary =
     js ''Passionate student eager to contribute to innovative projects. (Note: Gemini API key is missing or invalid in environment secrets)''"

definition generic_summary :: jsstring where
  "generic_summary = js ''Passionate student eager to contribute to innovative projects.''"

text \<open>\<open>!apiKey || apiKey === "MY_GEMINI_API_KEY" || apiKey === "undefined"\<close>\<close>

definition key_unusable :: "jsstring option \<Rightarrow> bool" where
  "key_unusable apiKey =
     (case apiKey of
        None \<Rightarrow> True
      | Some k \<Rightarrow> k = [] \<or> k = js ''MY_GEMINI_API_KEY'' \<or> k = js ''undefined'')"

text \<open>
  \<open>generateSummary\<close>, with the value of \<open>process.env.GEMINI_API_KEY\<close>, the prompt
  built from the record and the behaviour of the collaborator as parameters. The
  \<open>finally\<close> block runs on every path that entered the \<open>try\<close>. The awaited
  call is one step here: a request is logged when the call is made, and the reply
  decides the summary.
\<close>

definition generateSummary ::
  "ResumeData option \<Rightarrow> jsstring option \<Rightarrow> (ResumeData \<Rightarrow> jsstring) \<Rightarrow> (request \<Rightarrow> reply)
     \<Rightarrow> session \<Rightarrow> session" where
  "generateSummary dat apiKey prompt generateContent w =
     (case dat of
        None \<Rightarrow> w
      | Some d \<Rightarrow>
          (let w1 = w\<lparr>loadingAi := True\<rparr> in
           if key_unusable apiKey then
             (let w2 = w1\<lparr>aiSummary := missing_key_summary\<rparr>;
                  w3 = w2\<lparr>loadingAi := False\<rparr>
              in w3\<lparr>loadingAi := False\<rparr>)
           else
             (let req = \<lparr>model = js ''gemini-3-flash-preview'', contents = prompt d\<rparr>;
                  w2 = w1\<lparr>requests := requests w1 @ [req]\<rparr>;
                  w3 = (case generateContent req of
                          Response t \<Rightarrow>
                            w2\<lparr>aiSummary :=
                                 (case t of
                                    None \<Rightarrow> generic_summary
                                  | Some x \<Rightarrow> if x \<noteq> [] then x else generic_summary)\<rparr>
                        | Failure \<Rightarrow> w2\<lparr>aiSummary := generic_summary\<rparr>)
              in w3\<lparr>loadingAi := False\<rparr>)))"


section \<open>The exporter: \<open>downloadPDF\<close>\<close>

text \<open>The template literal \<open>`${data?.name.replace(/\s+/g, '_')}_Resume.pdf`\<close>.\<close>

definition pdf_filename :: "ResumeData option \<Rightarrow> jsstring" where
  "pdf_filename dat =
     (case dat of
        None \<Rightarrow> js ''undefined''
      | Some d \<Rightarrow> replace_ws (name d)) @ js ''_Resume.pdf''"

text \<open>
  \<open>downloadPDF\<close>: \<open>element_found\<close> says whether the document has the element
  \<open>resume-content\<close>, \<open>rendered\<close> whether rasterisation and assembly went through
  without an exception.
\<close>

definition downloadPDF :: "ResumeData option \<Rightarrow> bool \<Rightarrow> bool \<Rightarrow> session \<Rightarrow> session" where
  "downloadPDF dat element_found rendered w =
     (if \<not> element_found then w
      else
        (let w1 = w\<lparr>isGenerating := True\<rparr>;
             w2 = (if rendered then w1\<lparr>saved := saved w1 @ [pdf_filename dat]\<rparr> else w1)
         in w2\<lparr>isGenerating := False\<rparr>))"


section \<open>Sample records\<close>

text \<open>A complete record and the record with nothing filled in.\<close>

definition jane_doe :: ResumeData where
  "jane_doe =
     \<lparr>name = js ''Jane Q. Doe'', email = js ''jane.doe@example.com'', phone = js ''5550123456'',
      linkedin = [], github = [], location = js ''Pune'', college = js ''State College'',
      degree = js ''B.Tech'', year = js ''2027'', cgpa = None,
      technicalSkills = js ''C, C++, Python, Java, SQL, Git, HTML, CSS'',
      softSkills = js ''Teamwork'',
      projects =
        [\<lparr>title = js ''Planner'',
          description = js ''A web application that plans weekly study sessions.'',
          technologies = js ''React''\<rparr>],
      activities = [\<lparr>role = js ''Member'', achievements = js ''Coding club''\<rparr>],
      linkedinAbout = None\<rparr>"

definition blank_resume :: ResumeData where
  "blank_resume =
     \<lparr>name = [], email = [], phone = [], linkedin = [], github = [], location = [],
      college = [], degree = [], year = [], cgpa = None, technicalSkills = [],
      softSkills = [], projects = [], activities = [], linkedinAbout = None\<rparr>"


section \<open>Facts about the string operations\<close>

lemma js_Nil [simp]: "js [] = []"
  by (simp add: js_def)

lemma trim_nonempty_iff: "0 < length (trim s) \<longleftrightarrow> list_ex (\<lambda>c. \<not> is_ws c) s"
proof (cases "dropWhile is_ws s = []")
  case True
  then have "\<forall>c\<in>set s. is_ws c"
    by simp
  then show ?thesis
    unfolding trim_def True by (simp add: list_ex_iff)
next
  case False
  then have "\<not> is_ws (hd (dropWhile is_ws s))"
    by (rule hd_dropWhile)
  moreover have "hd (dropWhile is_ws s) \<in> set (rev (dropWhile is_ws s))"
    using False by simp
  ultimately have "dropWhile is_ws (rev (dropWhile is_ws s)) \<noteq> []"
    by auto
  moreover have "list_ex (\<lambda>c. \<not> is_ws c) s"
    using False by (simp add: list_ex_iff)
  ultimately show ?thesis
    by (simp add: trim_def)
qed

lemma startsWith_iff: "startsWith s m \<longleftrightarrow> take (length m) s = m"
  by (induction s m rule: startsWith.induct) auto

lemma includes_js_iff: "includes_js s m \<longleftrightarrow> (\<exists>u v. s = u @ m @ v)"
proof (induction s)
  case Nil
  then show ?case by (cases m) auto
next
  case (Cons c cs)
  have sw: "startsWith (c # cs) m \<longleftrightarrow> (\<exists>v. c # cs = m @ v)"
    unfolding startsWith_iff
    by (metis append_eq_conv_conj)
  show ?case
  proof
    assume "includes_js (c # cs) m"
    then consider "startsWith (c # cs) m" | "includes_js cs m" by auto
    then show "\<exists>u v. c # cs = u @ m @ v"
    proof cases
      case 1
      then obtain v where "c # cs = m @ v" using sw by blast
      then have "c # cs = [] @ m @ v" by simp
      then show ?thesis by blast
    next
      case 2
      then obtain u v where "cs = u @ m @ v" using Cons.IH by blast
      then have "c # cs = (c # u) @ m @ v" by simp
      then show ?thesis by blast
    qed
  next
    assume "\<exists>u v. c # cs = u @ m @ v"
    then obtain u v where uv: "c # cs = u @ m @ v" by blast
    show "includes_js (c # cs) m"
    proof (cases u)
      case Nil
      then have "startsWith (c # cs) m" using uv sw by auto
      then show ?thesis by simp
    next
      case (Cons a u')
      then have "cs = u' @ m @ v" using uv by simp
      then have "includes_js cs m" using Cons.IH by blast
      then show ?thesis by simp
    qed
  qed
qed

lemma replace_ws_no_ws: "\<not> list_ex is_ws (replace_ws s)"
  by (induction s rule: replace_ws.induct) (auto simp: underscore_def is_ws_def)

lemma replace_ws_id: "\<not> list_ex is_ws s \<Longrightarrow> replace_ws s = s"
  by (induction s) auto


section \<open>Facts about the scoring blocks\<close>

lemma add_score_sel [simp]:
  "score (add_score n fr) = score fr + n"
  "feedback (add_score n fr) = feedback fr"
  "data (add_score n fr) = data fr"
  "summary (add_score n fr) = summary fr"
  by (simp_all add: add_score_def)

lemma push_sel [simp]:
  "score (push m fr) = score fr"
  "feedback (push m fr) = feedback fr @ [m]"
  "data (push m fr) = data fr"
  "summary (push m fr) = summary fr"
  by (simp_all add: push_def)

lemma enter_sel [simp]:
  "score (enter d s) = 0"
  "feedback (enter d s) = []"
  "data (enter d s) = d"
  "summary (enter d s) = s"
  by (simp_all add: enter_def)

lemma personal_details_args [simp]:
  "data (personal_details fr) = data fr" "summary (personal_details fr) = summary fr"
  by (simp_all add: personal_details_def)

lemma education_args [simp]:
  "data (education fr) = data fr" "summary (education fr) = summary fr"
  by (simp_all add: education_def)

lemma skills_args [simp]:
  "data (skills fr) = data fr" "summary (skills fr) = summary fr"
  by (simp_all add: skills_def)

lemma projects_step_args [simp]:
  "data (projects_step fr) = data fr" "summary (projects_step fr) = summary fr"
  by (simp_all add: projects_step_def Let_def)

lemma activities_step_args [simp]:
  "data (activities_step fr) = data fr" "summary (activities_step fr) = summary fr"
  by (simp_all add: activities_step_def)

lemma linkedin_about_args [simp]:
  "data (linkedin_about fr) = data fr" "summary (linkedin_about fr) = summary fr"
  by (simp_all add: linkedin_about_def)

lemma personal_details_score:
  "score (personal_details fr) = score fr +
     (if name (data fr) \<noteq> [] \<and> email (data fr) \<noteq> [] \<and> phone (data fr) \<noteq> [] then 10 else 0)"
  by (simp add: personal_details_def)

lemma education_score:
  "score (education fr) = score fr +
     (if college (data fr) \<noteq> [] \<and> degree (data fr) \<noteq> [] then 15 else 0)"
  by (simp add: education_def)

lemma skills_score:
  "score (skills fr) = score fr +
     (if 8 \<le> skillsCount (data fr) then 20
      else if 5 \<le> skillsCount (data fr) then 10
      else if 3 \<le> skillsCount (data fr) then 5 else 0)"
  by (simp add: skills_def)

lemma projects_step_score:
  "score (projects_step fr) = score fr +
     (if projects (data fr) \<noteq> [] then (if hasLongDesc (data fr) then 25 else 10) else 0)"
  by (simp add: projects_step_def Let_def)

lemma activities_step_score:
  "score (activities_step fr) = score fr + (if activities (data fr) \<noteq> [] then 10 else 0)"
  by (simp add: activities_step_def)

lemma linkedin_about_score:
  "score (linkedin_about fr) = score fr +
     (if summary fr \<noteq> [] \<and> \<not> includes_js (summary fr) api_key_marker then 20 else 0)"
  by (simp add: linkedin_about_def)

lemma personal_details_feedback:
  "feedback (personal_details fr) = feedback fr @
     (if name (data fr) \<noteq> [] \<and> email (data fr) \<noteq> [] \<and> phone (data fr) \<noteq> [] then []
      else [js ''Complete your personal contact information.''])"
  by (simp add: personal_details_def)

lemma education_feedback:
  "feedback (education fr) = feedback fr @
     (if college (data fr) \<noteq> [] \<and> degree (data fr) \<noteq> [] then []
      else [js ''Add your college and degree details.''])"
  by (simp add: education_def)

lemma skills_feedback:
  "feedback (skills fr) = feedback fr @
     (if 8 \<le> skillsCount (data fr) then []
      else if 5 \<le> skillsCount (data fr) then
        [js ''Try adding at least 8 technical skills for better visibility.'']
      else if 3 \<le> skillsCount (data fr) then
        [js ''Your skills section is a bit thin. Aim for 5-8 key skills.'']
      else [js ''Add more technical skills to showcase your expertise.''])"
  by (simp add: skills_def)

lemma projects_step_feedback:
  "feedback (projects_step fr) = feedback fr @
     (if projects (data fr) \<noteq> [] then
        (if hasLongDesc (data fr) then []
         else [js ''Expand your project descriptions to be more detailed (aim for 40+ characters).''])
      else [js ''Add at least one project to demonstrate practical experience.''])"
  by (simp add: projects_step_def Let_def)

lemma activities_step_feedback:
  "feedback (activities_step fr) = feedback fr @
     (if activities (data fr) \<noteq> [] then []
      else [js ''Include extracurricular activities or club roles.''])"
  by (simp add: activities_step_def)

lemma linkedin_about_feedback:
  "feedback (linkedin_about fr) = feedback fr @
     (if summary fr \<noteq> [] \<and> \<not> includes_js (summary fr) api_key_marker then []
      else [js ''Generate an AI LinkedIn summary to boost your profile score.''])"
  by (simp add: linkedin_about_def)

lemma calc_score:
  "score (calculateResumeScore d s) =
     (if name d \<noteq> [] \<and> email d \<noteq> [] \<and> phone d \<noteq> [] then 10 else 0) +
     (if college d \<noteq> [] \<and> degree d \<noteq> [] then 15 else 0) +
     (if 8 \<le> skillsCount d then 20 else if 5 \<le> skillsCount d then 10
      else if 3 \<le> skillsCount d then 5 else 0) +
     (if projects d \<noteq> [] then (if hasLongDesc d then 25 else 10) else 0) +
     (if activities d \<noteq> [] then 10 else 0) +
     (if s \<noteq> [] \<and> \<not> includes_js s api_key_marker then 20 else 0)"
  unfolding calculateResumeScore_def body_def Let_def
  by (simp only: result.simps linkedin_about_score activities_step_score projects_step_score
      skills_score education_score personal_details_score
      linkedin_about_args activities_step_args projects_step_args skills_args education_args
      personal_details_args enter_sel add_0)

lemma calc_feedback:
  "feedback (calculateResumeScore d s) =
     (if name d \<noteq> [] \<and> email d \<noteq> [] \<and> phone d \<noteq> [] then []
      else [js ''Complete your personal contact information.'']) @
     (if college d \<noteq> [] \<and> degree d \<noteq> [] then []
      else [js ''Add your college and degree details.'']) @
     (if 8 \<le> skillsCount d then []
      else if 5 \<le> skillsCount d then
        [js ''Try adding at least 8 technical skills for better visibility.'']
      else if 3 \<le> skillsCount d then
        [js ''Your skills section is a bit thin. Aim for 5-8 key skills.'']
      else [js ''Add more technical skills to showcase your expertise.'']) @
     (if projects d \<noteq> [] then
        (if hasLongDesc d then []
         else [js ''Expand your project descriptions to be more detailed (aim for 40+ characters).''])
      else [js ''Add at least one project to demonstrate practical experience.'']) @
     (if activities d \<noteq> [] then []
      else [js ''Include extracurricular activities or club roles.'']) @
     (if s \<noteq> [] \<and> \<not> includes_js s api_key_marker then []
      else [js ''Generate an AI LinkedIn summary to boost your profile score.''])"
  unfolding calculateResumeScore_def body_def Let_def
  by (simp only: result.simps linkedin_about_feedback activities_step_feedback
      projects_step_feedback skills_feedback education_feedback personal_details_feedback
      linkedin_about_args activities_step_args projects_step_args skills_args education_args
      personal_details_args enter_sel append_Nil append_assoc)


section \<open>Facts about the sample records\<close>

lemma jane_doe_fields:
  "name jane_doe \<noteq> []" "email jane_doe \<noteq> []" "phone jane_doe \<noteq> []"
  "college jane_doe \<noteq> []" "degree jane_doe \<noteq> []"
  "projects jane_doe \<noteq> []" "activities jane_doe \<noteq> []"
  by (simp_all add: jane_doe_def js_def)

lemma jane_doe_skills: "skillsCount jane_doe = 8"
  by (simp add: skillsCount_def jane_doe_def js_def comma_def trim_def is_ws_def)

lemma jane_doe_long: "hasLongDesc jane_doe"
  by (simp add: hasLongDesc_def jane_doe_def js_def)

lemma blank_resume_fields:
  "name blank_resume = []" "email blank_resume = []" "phone blank_resume = []"
  "college blank_resume = []" "degree blank_resume = []"
  "projects blank_resume = []" "activities blank_resume = []"
  "skillsCount blank_resume = 0"
  by (simp_all add: blank_resume_def skillsCount_def trim_def)

lemma skillsCount_alt:
  "skillsCount d = length (filter (list_ex (\<lambda>c. \<not> is_ws c)) (split_js comma (technicalSkills d)))"
  by (simp only: skillsCount_def trim_nonempty_iff)

lemma hasLongDesc_alt: "hasLongDesc d \<longleftrightarrow> (\<exists>p\<in>set (projects d). 40 < length (description p))"
  by (simp add: hasLongDesc_def list_ex_iff)

lemma skillsCount_empty: "skillsCount (d\<lparr>technicalSkills := []\<rparr>) = 0"
  by (simp add: skillsCount_def trim_def)

lemma hasLongDesc_skills_update: "hasLongDesc (d\<lparr>technicalSkills := t\<rparr>) = hasLongDesc d"
  by (simp add: hasLongDesc_def)


section \<open>Facts about the generator and the exporter\<close>

lemma missing_key_summary_marked: "includes_js missing_key_summary api_key_marker"
  by (simp add: missing_key_summary_def api_key_marker_def js_def)

lemma generic_summary_unmarked: "\<not> includes_js generic_summary api_key_marker"
  by (simp add: generic_summary_def api_key_marker_def js_def)

lemma generic_summary_nonempty: "generic_summary \<noteq> []"
  by (simp add: generic_summary_def js_def)

lemma generateSummary_unusable:
  "key_unusable k \<Longrightarrow>
     generateSummary (Some d) k p g w =
       w\<lparr>loadingAi := False, aiSummary := missing_key_summary\<rparr>"
  by (simp add: generateSummary_def Let_def)

lemma generateSummary_no_data: "generateSummary None k p g w = w"
  by (simp add: generateSummary_def)

lemma dropWhile_ws_run:
  assumes "list_all is_ws r" and "v = [] \<or> \<not> is_ws (hd v)"
  shows "dropWhile is_ws (r @ v) = v"
proof -
  have "dropWhile is_ws (r @ v) = dropWhile is_ws v"
    using assms(1) by (simp add: list_all_iff dropWhile_append2)
  also have "\<dots> = v"
    using assms(2) by (cases v) auto
  finally show ?thesis .
qed

lemma replace_ws_run:
  assumes "r \<noteq> []" and "list_all is_ws r"
    and "u = [] \<or> \<not> is_ws (last u)" and "v = [] \<or> \<not> is_ws (hd v)"
  shows "replace_ws (u @ r @ v) = replace_ws u @ underscore # replace_ws v"
  using assms(3)
proof (induction u rule: replace_ws.induct)
  case 1
  obtain c r' where r: "r = c # r'"
    using assms(1) by (cases r) auto
  then have "is_ws c" and "list_all is_ws r'"
    using assms(2) by simp_all
  then show ?case
    using r assms(4) by (simp add: dropWhile_ws_run)
next
  case (2 c cs)
  show ?case
  proof (cases "is_ws c")
    case True
    with 2(3) have ne: "cs \<noteq> []" and lst: "\<not> is_ws (last cs)"
      by (auto split: if_splits)
    then have mem: "last cs \<in> set cs"
      by simp
    have dw: "dropWhile is_ws (cs @ r @ v) = dropWhile is_ws cs @ r @ v"
      using mem lst by (rule dropWhile_append1)
    have dne: "dropWhile is_ws cs \<noteq> []"
      using mem lst by auto
    have "cs = takeWhile is_ws cs @ dropWhile is_ws cs"
      by simp
    then have "last cs = last (takeWhile is_ws cs @ dropWhile is_ws cs)"
      by simp
    also have "\<dots> = last (dropWhile is_ws cs)"
      using dne by (rule last_appendR)
    finally have "last (dropWhile is_ws cs) = last cs"
      by simp
    then have "dropWhile is_ws cs = [] \<or> \<not> is_ws (last (dropWhile is_ws cs))"
      using lst by simp
    then have "replace_ws (dropWhile is_ws cs @ r @ v) =
        replace_ws (dropWhile is_ws cs) @ underscore # replace_ws v"
      using 2(1) True by blast
    then show ?thesis
      using True dw by simp
  next
    case False
    have "cs = [] \<or> \<not> is_ws (last cs)"
      using 2(3) by (cases cs) auto
    then have "replace_ws (cs @ r @ v) = replace_ws cs @ underscore # replace_ws v"
      using 2(2) False by blast
    then show ?thesis
      using False by simp
  qed
qed

lemma jane_filename: "replace_ws (js ''Jane Q. Doe'') @ js ''_Resume.pdf'' = js ''Jane_Q._Doe_Resume.pdf''"
  by (simp add: js_def is_ws_def underscore_def)

lemma resume_suffix_no_ws: "\<not> list_ex is_ws (js ''_Resume.pdf'')"
  by (simp add: js_def is_ws_def)

lemma downloadPDF_saved:
  "saved (downloadPDF dat True True w) = saved w @ [pdf_filename dat]"
  by (simp add: downloadPDF_def Let_def)


section \<open>Properties of the scoring engine\<close>

text \<open>
  C1. A record whose name, email, phone, college and degree are non-empty, whose
  \<open>technicalSkills\<close> splits on commas into at least 8 entries that are not blank
  (an entry is blank when it has no code unit outside white space), that has a project
  with a description of more than 40 code units and at least one activity, together
  with a non-empty summary that does not contain the marker of the missing API key,
  gets the score 100 and no feedback.
\<close>

theorem complete_record_scores_100:
  assumes "name d \<noteq> []" and "email d \<noteq> []" and "phone d \<noteq> []"
    and "college d \<noteq> []" and "degree d \<noteq> []"
    and "8 \<le> length (filter (list_ex (\<lambda>c. \<not> is_ws c)) (split_js comma (technicalSkills d)))"
    and "\<exists>p\<in>set (projects d). 40 < length (description p)"
    and "activities d \<noteq> []"
    and "s \<noteq> []" and "\<not> includes_js s api_key_marker"
  shows "calculateResumeScore d s = \<lparr>score = 100, feedback = []\<rparr>"
proof -
  have sk: "8 \<le> skillsCount d"
    using assms(6) by (simp add: skillsCount_alt)
  have pr: "projects d \<noteq> []" and ld: "hasLongDesc d"
    using assms(7) by (auto simp: hasLongDesc_alt)
  have "score (calculateResumeScore d s) = 100"
    unfolding calc_score using assms sk pr ld by simp
  moreover have "feedback (calculateResumeScore d s) = []"
    unfolding calc_feedback using assms sk pr ld by simp
  ultimately show ?thesis
    by (cases "calculateResumeScore d s") simp
qed

theorem complete_record_scores_100_witness:
  "calculateResumeScore jane_doe (js ''Curious first-year student.'') = \<lparr>score = 100, feedback = []\<rparr>"
  by (rule complete_record_scores_100)
     (simp_all add: jane_doe_def js_def comma_def is_ws_def api_key_marker_def)

text \<open>
  C2. The skills criterion is a monotonic step function of \<open>skillsCount\<close>, the number
  of non-blank comma-separated entries of \<open>technicalSkills\<close>. The record with
  \<open>technicalSkills\<close> emptied counts 0 entries, so the difference to its score is what
  the criterion contributes: 20 from 8 entries on, 10 from 5, 5 from 3, otherwise 0; in
  particular 5 for exactly 3 entries, 10 for exactly 5 and for exactly 7, 20 for
  exactly 8. Changing only \<open>technicalSkills\<close> to a value with at least as many entries
  never lowers the score.
\<close>

theorem skills_criterion_step_function:
  "score (calculateResumeScore d s) =
     score (calculateResumeScore (d\<lparr>technicalSkills := []\<rparr>) s) +
       (if 8 \<le> skillsCount d then 20 else if 5 \<le> skillsCount d then 10
        else if 3 \<le> skillsCount d then 5 else 0)
   \<and> (skillsCount d = 3 \<longrightarrow>
        score (calculateResumeScore d s) = score (calculateResumeScore (d\<lparr>technicalSkills := []\<rparr>) s) + 5)
   \<and> (skillsCount d = 5 \<longrightarrow>
        score (calculateResumeScore d s) = score (calculateResumeScore (d\<lparr>technicalSkills := []\<rparr>) s) + 10)
   \<and> (skillsCount d = 7 \<longrightarrow>
        score (calculateResumeScore d s) = score (calculateResumeScore (d\<lparr>technicalSkills := []\<rparr>) s) + 10)
   \<and> (skillsCount d = 8 \<longrightarrow>
        score (calculateResumeScore d s) = score (calculateResumeScore (d\<lparr>technicalSkills := []\<rparr>) s) + 20)
   \<and> (skillsCount (d\<lparr>technicalSkills := t\<rparr>) \<le> skillsCount (d\<lparr>technicalSkills := t'\<rparr>) \<longrightarrow>
        score (calculateResumeScore (d\<lparr>technicalSkills := t\<rparr>) s)
          \<le> score (calculateResumeScore (d\<lparr>technicalSkills := t'\<rparr>) s))"
proof -
  have eq: "score (calculateResumeScore d s) =
     score (calculateResumeScore (d\<lparr>technicalSkills := []\<rparr>) s) +
       (if 8 \<le> skillsCount d then 20 else if 5 \<le> skillsCount d then 10
        else if 3 \<le> skillsCount d then 5 else 0)" for d
    unfolding calc_score by (simp add: skillsCount_empty hasLongDesc_skills_update)
  have mono: "score (calculateResumeScore (d\<lparr>technicalSkills := t\<rparr>) s)
          \<le> score (calculateResumeScore (d\<lparr>technicalSkills := t'\<rparr>) s)"
    if "skillsCount (d\<lparr>technicalSkills := t\<rparr>) \<le> skillsCount (d\<lparr>technicalSkills := t'\<rparr>)"
    using that unfolding calc_score by (simp add: hasLongDesc_skills_update)
  show ?thesis
    using eq [of d] mono by simp
qed


theorem skills_criterion_step_function_witness:
  "skillsCount (jane_doe\<lparr>technicalSkills := js ''C, Java ,SQL''\<rparr>) = 3
   \<and> score (calculateResumeScore (jane_doe\<lparr>technicalSkills := js ''C, Java ,SQL''\<rparr>) []) = 65
   \<and> skillsCount (jane_doe\<lparr>technicalSkills := js ''C,Java,SQL,,Git, ,CSS''\<rparr>) = 5
   \<and> score (calculateResumeScore (jane_doe\<lparr>technicalSkills := js ''C,Java,SQL,,Git, ,CSS''\<rparr>) []) = 70
   \<and> skillsCount (jane_doe\<lparr>technicalSkills := js ''a,b,c,d,e,f,g''\<rparr>) = 7
   \<and> score (calculateResumeScore (jane_doe\<lparr>technicalSkills := js ''a,b,c,d,e,f,g''\<rparr>) []) = 70
   \<and> skillsCount jane_doe = 8
   \<and> score (calculateResumeScore jane_doe []) = 80
   \<and> score (calculateResumeScore (jane_doe\<lparr>technicalSkills := js ''a,b,c,d,e,f,g''\<rparr>) [])
        \<le> score (calculateResumeScore (jane_doe\<lparr>technicalSkills := js ''a,b,c,d,e,f,g,h''\<rparr>) [])"
proof -
  have base: "score (calculateResumeScore (jane_doe\<lparr>technicalSkills := []\<rparr>) []) = 60"
    unfolding calc_score
    by (simp add: jane_doe_fields jane_doe_long hasLongDesc_skills_update skillsCount_empty)
  have c3: "skillsCount (jane_doe\<lparr>technicalSkills := js ''C, Java ,SQL''\<rparr>) = 3"
    by (simp add: skillsCount_def js_def comma_def trim_def is_ws_def)
  have c5: "skillsCount (jane_doe\<lparr>technicalSkills := js ''C,Java,SQL,,Git, ,CSS''\<rparr>) = 5"
    by (simp add: skillsCount_def js_def comma_def trim_def is_ws_def)
  have c7: "skillsCount (jane_doe\<lparr>technicalSkills := js ''a,b,c,d,e,f,g''\<rparr>) = 7"
    by (simp add: skillsCount_def js_def comma_def trim_def is_ws_def)
  have c8: "skillsCount (jane_doe\<lparr>technicalSkills := js ''a,b,c,d,e,f,g,h''\<rparr>) = 8"
    by (simp add: skillsCount_def js_def comma_def trim_def is_ws_def)
  have upd: "jane_doe\<lparr>technicalSkills := []\<rparr> = jane_doe\<lparr>technicalSkills := x, technicalSkills := []\<rparr>" for x
    by simp
  show ?thesis
    using skills_criterion_step_function
             [of "jane_doe\<lparr>technicalSkills := js ''C, Java ,SQL''\<rparr>" "[]"]
          skills_criterion_step_function
             [of "jane_doe\<lparr>technicalSkills := js ''C,Java,SQL,,Git, ,CSS''\<rparr>" "[]"]
          skills_criterion_step_function
             [of "jane_doe\<lparr>technicalSkills := js ''a,b,c,d,e,f,g''\<rparr>" "[]"]
          skills_criterion_step_function
             [of jane_doe "[]" "js ''a,b,c,d,e,f,g''" "js ''a,b,c,d,e,f,g,h''"]
    by (simp add: base c3 c5 c7 c8 jane_doe_skills)
qed

text \<open>
  C3. The feedback is the concatenation, in the order contact information, education,
  skills, projects, activities, summary, of one list per criterion; that list is empty
  when the criterion is fully met and holds exactly one suggestion otherwise. So the
  number of suggestions is the number of criteria that are not fully met.
\<close>

theorem feedback_one_per_unmet_criterion_in_order:
  "feedback (calculateResumeScore d s) =
     (if name d \<noteq> [] \<and> email d \<noteq> [] \<and> phone d \<noteq> [] then []
      else [js ''Complete your personal contact information.'']) @
     (if college d \<noteq> [] \<and> degree d \<noteq> [] then []
      else [js ''Add your college and degree details.'']) @
     (if 8 \<le> skillsCount d then []
      else if 5 \<le> skillsCount d then
        [js ''Try adding at least 8 technical skills for better visibility.'']
      else if 3 \<le> skillsCount d then
        [js ''Your skills section is a bit thin. Aim for 5-8 key skills.'']
      else [js ''Add more technical skills to showcase your expertise.'']) @
     (if projects d \<noteq> [] then
        (if hasLongDesc d then []
         else [js ''Expand your project descriptions to be more detailed (aim for 40+ characters).''])
      else [js ''Add at least one project to demonstrate practical experience.'']) @
     (if activities d \<noteq> [] then []
      else [js ''Include extracurricular activities or club roles.'']) @
     (if s \<noteq> [] \<and> \<not> includes_js s api_key_marker then []
      else [js ''Generate an AI LinkedIn summary to boost your profile score.''])
   \<and> length (feedback (calculateResumeScore d s)) =
     (if name d \<noteq> [] \<and> email d \<noteq> [] \<and> phone d \<noteq> [] then 0 else 1) +
     (if college d \<noteq> [] \<and> degree d \<noteq> [] then 0 else 1) +
     (if 8 \<le> skillsCount d then 0 else 1) +
     (if projects d \<noteq> [] \<and> hasLongDesc d then 0 else 1) +
     (if activities d \<noteq> [] then 0 else 1) +
     (if s \<noteq> [] \<and> \<not> includes_js s api_key_marker then 0 else 1)"
proof
  show "feedback (calculateResumeScore d s) =
     (if name d \<noteq> [] \<and> email d \<noteq> [] \<and> phone d \<noteq> [] then []
      else [js ''Complete your personal contact information.'']) @
     (if college d \<noteq> [] \<and> degree d \<noteq> [] then []
      else [js ''Add your college and degree details.'']) @
     (if 8 \<le> skillsCount d then []
      else if 5 \<le> skillsCount d then
        [js ''Try adding at least 8 technical skills for better visibility.'']
      else if 3 \<le> skillsCount d then
        [js ''Your skills section is a bit thin. Aim for 5-8 key skills.'']
      else [js ''Add more technical skills to showcase your expertise.'']) @
     (if projects d \<noteq> [] then
        (if hasLongDesc d then []
         else [js ''Expand your project descriptions to be more detailed (aim for 40+ characters).''])
      else [js ''Add at least one project to demonstrate practical experience.'']) @
     (if activities d \<noteq> [] then []
      else [js ''Include extracurricular activities or club roles.'']) @
     (if s \<noteq> [] \<and> \<not> includes_js s api_key_marker then []
      else [js ''Generate an AI LinkedIn summary to boost your profile score.''])"
    by (rule calc_feedback)
  show "length (feedback (calculateResumeScore d s)) =
     (if name d \<noteq> [] \<and> email d \<noteq> [] \<and> phone d \<noteq> [] then 0 else 1) +
     (if college d \<noteq> [] \<and> degree d \<noteq> [] then 0 else 1) +
     (if 8 \<le> skillsCount d then 0 else 1) +
     (if projects d \<noteq> [] \<and> hasLongDesc d then 0 else 1) +
     (if activities d \<noteq> [] then 0 else 1) +
     (if s \<noteq> [] \<and> \<not> includes_js s api_key_marker then 0 else 1)"
    unfolding calc_feedback length_append by simp
qed

theorem feedback_one_per_unmet_criterion_in_order_witness:
  "feedback (calculateResumeScore blank_resume []) =
     [js ''Complete your personal contact information.'',
      js ''Add your college and degree details.'',
      js ''Add more technical skills to showcase your expertise.'',
      js ''Add at least one project to demonstrate practical experience.'',
      js ''Include extracurricular activities or club roles.'',
      js ''Generate an AI LinkedIn summary to boost your profile score.'']
   \<and> length (feedback (calculateResumeScore blank_resume [])) = 6
   \<and> feedback (calculateResumeScore (jane_doe\<lparr>technicalSkills := js ''C, Java ,SQL'', activities := []\<rparr>) (js ''x'')) =
     [js ''Your skills section is a bit thin. Aim for 5-8 key skills.'',
      js ''Include extracurricular activities or club roles.'']"
proof -
  have c3: "skillsCount (jane_doe\<lparr>technicalSkills := js ''C, Java ,SQL'', activities := []\<rparr>) = 3"
    by (simp add: skillsCount_def js_def comma_def trim_def is_ws_def)
  have ld: "hasLongDesc (jane_doe\<lparr>technicalSkills := js ''C, Java ,SQL'', activities := []\<rparr>)"
    by (simp add: hasLongDesc_def jane_doe_def js_def)
  have nm: "\<not> includes_js (js ''x'') api_key_marker" "js ''x'' \<noteq> []"
    by (simp_all add: js_def api_key_marker_def)
  show ?thesis
    using feedback_one_per_unmet_criterion_in_order [of blank_resume "[]"]
          feedback_one_per_unmet_criterion_in_order
            [of "jane_doe\<lparr>technicalSkills := js ''C, Java ,SQL'', activities := []\<rparr>" "js ''x''"]
    by (simp add: blank_resume_fields jane_doe_fields c3 ld nm)
qed

text \<open>
  C9. For every record and every summary string, the score returned by
  \<open>calculateResumeScore\<close> lies between 0 and 100 inclusive.
\<close>

theorem score_between_0_and_100:
  "0 \<le> score (calculateResumeScore d s) \<and> score (calculateResumeScore d s) \<le> 100"
  unfolding calc_score by simp

text \<open>
  C10. The score is 100 exactly when the feedback is empty: points are lost only
  where a suggestion is given, and every suggestion goes with lost points.
\<close>

theorem full_score_iff_no_feedback:
  "score (calculateResumeScore d s) = 100 \<longleftrightarrow> feedback (calculateResumeScore d s) = []"
  unfolding calc_score calc_feedback
  by (simp split: if_splits)

theorem full_score_iff_no_feedback_witness:
  "score (calculateResumeScore jane_doe (js ''x'')) = 100
   \<and> feedback (calculateResumeScore jane_doe (js ''x'')) = []
   \<and> score (calculateResumeScore jane_doe []) \<noteq> 100
   \<and> feedback (calculateResumeScore jane_doe []) \<noteq> []"
proof -
  have nm: "\<not> includes_js (js ''x'') api_key_marker" "js ''x'' \<noteq> []"
    by (simp_all add: js_def api_key_marker_def)
  have a: "score (calculateResumeScore jane_doe (js ''x'')) = 100"
    unfolding calc_score by (simp add: jane_doe_fields jane_doe_long jane_doe_skills nm)
  have b: "score (calculateResumeScore jane_doe []) \<noteq> 100"
    unfolding calc_score by (simp add: jane_doe_fields jane_doe_long jane_doe_skills)
  show ?thesis
    using a b full_score_iff_no_feedback [of jane_doe "js ''x''"]
      full_score_iff_no_feedback [of jane_doe "[]"]
    by simp
qed


section \<open>Properties of the summary bonus and the summary generator\<close>

text \<open>
  C4, as stated: the bonus is awarded if and only if the summary is non-empty and is
  not the missing-key sentinel. It fails for a summary that is not the sentinel but
  quotes the marker: the test of the source is \<open>summary.includes(marker)\<close>, not
  equality with the sentinel, so the bonus is withheld there.
\<close>

theorem summary_bonus_counterexample:
  "\<not> (score (calculateResumeScore jane_doe (js ''Aspiring engineer. (Note: Gemini API key is missing)''))
          = score (calculateResumeScore jane_doe []) + 20
        \<longleftrightarrow> js ''Aspiring engineer. (Note: Gemini API key is missing)'' \<noteq> []
            \<and> js ''Aspiring engineer. (Note: Gemini API key is missing)'' \<noteq> missing_key_summary)"
proof -
  have a: "includes_js (js ''Aspiring engineer. (Note: Gemini API key is missing)'') api_key_marker"
    by (simp add: api_key_marker_def js_def)
  have b: "js ''Aspiring engineer. (Note: Gemini API key is missing)'' \<noteq> []"
    by (simp add: js_def)
  have c: "js ''Aspiring engineer. (Note: Gemini API key is missing)'' \<noteq> missing_key_summary"
    by (simp add: js_def missing_key_summary_def)
  show ?thesis
    unfolding calc_score using a b c by simp
qed

text \<open>
  C4, amended. The bonus of 20 points is awarded if and only if the summary is
  non-empty and does not contain the marker \<open>(Note: Gemini API key is missing\<close>
  anywhere; the score with the empty summary is the score without the bonus. The
  sentinel contains the marker, so the bonus is withheld for it, and so it is for the
  summary that \<open>generateSummary\<close> sets on an unusable key.
\<close>

theorem summary_bonus_iff_unmarked:
  "score (calculateResumeScore d s) =
     score (calculateResumeScore d []) +
       (if s \<noteq> [] \<and> \<not> includes_js s api_key_marker then 20 else 0)
   \<and> (score (calculateResumeScore d s) = score (calculateResumeScore d []) + 20
        \<longleftrightarrow> s \<noteq> [] \<and> \<not> (\<exists>u v. s = u @ api_key_marker @ v))
   \<and> (\<exists>u v. missing_key_summary = u @ api_key_marker @ v)
   \<and> score (calculateResumeScore d missing_key_summary) = score (calculateResumeScore d [])
   \<and> (key_unusable k \<longrightarrow>
        score (calculateResumeScore d (aiSummary (generateSummary (Some d') k p g w)))
          = score (calculateResumeScore d []))"
proof -
  have eq: "score (calculateResumeScore d s) =
     score (calculateResumeScore d []) +
       (if s \<noteq> [] \<and> \<not> includes_js s api_key_marker then 20 else 0)" for s
    unfolding calc_score by simp
  have mk: "score (calculateResumeScore d missing_key_summary) = score (calculateResumeScore d [])"
    using eq [of missing_key_summary] missing_key_summary_marked by simp
  have gen: "score (calculateResumeScore d (aiSummary (generateSummary (Some d') k p g w)))
          = score (calculateResumeScore d [])" if "key_unusable k"
    using that mk by (simp add: generateSummary_unusable)
  show ?thesis
    using eq [of s] mk gen missing_key_summary_marked
    by (simp add: includes_js_iff [symmetric])
qed

theorem summary_bonus_iff_unmarked_witness:
  "score (calculateResumeScore jane_doe (js ''Curious first-year student.'')) = 100
   \<and> score (calculateResumeScore jane_doe []) = 80
   \<and> key_unusable (Some (js ''MY_GEMINI_API_KEY''))
   \<and> score (calculateResumeScore jane_doe
        (aiSummary (generateSummary (Some jane_doe) (Some (js ''MY_GEMINI_API_KEY''))
           (\<lambda>d. name d) (\<lambda>r. Response (Some (contents r)))
           \<lparr>isGenerating = False, aiSummary = [], loadingAi = False, requests = [], saved = []\<rparr>)))
       = 80"
proof -
  have base: "score (calculateResumeScore jane_doe []) = 80"
    unfolding calc_score by (simp add: jane_doe_fields jane_doe_long jane_doe_skills)
  have ku: "key_unusable (Some (js ''MY_GEMINI_API_KEY''))"
    by (simp add: key_unusable_def)
  have nm: "js ''Curious first-year student.'' \<noteq> []"
    "\<not> includes_js (js ''Curious first-year student.'') api_key_marker"
    by (simp_all add: js_def api_key_marker_def)
  show ?thesis
    using summary_bonus_iff_unmarked [of jane_doe "js ''Curious first-year student.''"
        "Some (js ''MY_GEMINI_API_KEY'')" jane_doe "\<lambda>d. name d" "\<lambda>r. Response (Some (contents r))"
        "\<lparr>isGenerating = False, aiSummary = [], loadingAi = False, requests = [], saved = []\<rparr>"]
      base ku nm
    by simp
qed

text \<open>
  C5. With a usable key and a record present, when the call to the collaborator
  fails, \<open>generateSummary\<close> sets the summary to the generic text; that text is not the
  missing-key sentinel, and \<open>calculateResumeScore\<close> awards the bonus of 20 points
  for it, whatever the record.
\<close>

theorem service_failure_gives_generic_summary:
  assumes "\<not> key_unusable k"
    and "g \<lparr>model = js ''gemini-3-flash-preview'', contents = p d\<rparr> = Failure"
  shows "aiSummary (generateSummary (Some d) k p g w) = generic_summary
   \<and> generic_summary \<noteq> missing_key_summary
   \<and> score (calculateResumeScore d' generic_summary) = score (calculateResumeScore d' []) + 20"
proof -
  have "aiSummary (generateSummary (Some d) k p g w) = generic_summary"
    using assms by (simp add: generateSummary_def Let_def)
  moreover have "generic_summary \<noteq> missing_key_summary"
    using missing_key_summary_marked generic_summary_unmarked by auto
  moreover have "score (calculateResumeScore d' generic_summary) = score (calculateResumeScore d' []) + 20"
    unfolding calc_score using generic_summary_unmarked generic_summary_nonempty by simp
  ultimately show ?thesis by simp
qed

theorem service_failure_gives_generic_summary_witness:
  "aiSummary (generateSummary (Some jane_doe) (Some (js ''AIzaSyExampleKey'')) (\<lambda>d. name d)
       (\<lambda>r. Failure)
       \<lparr>isGenerating = False, aiSummary = [], loadingAi = False, requests = [], saved = []\<rparr>)
     = generic_summary
   \<and> generic_summary \<noteq> missing_key_summary
   \<and> score (calculateResumeScore jane_doe generic_summary) = 100"
proof -
  have base: "score (calculateResumeScore jane_doe []) = 80"
    unfolding calc_score by (simp add: jane_doe_fields jane_doe_long jane_doe_skills)
  have ku: "\<not> key_unusable (Some (js ''AIzaSyExampleKey''))"
    by (simp add: key_unusable_def js_def)
  show ?thesis
    using service_failure_gives_generic_summary [OF ku, of "\<lambda>r. Failure" "\<lambda>d. name d" jane_doe
        "\<lparr>isGenerating = False, aiSummary = [], loadingAi = False, requests = [], saved = []\<rparr>" jane_doe]
      base
    by simp
qed

text \<open>
  C6. When the key from the environment is absent (undefined or empty) or one of the
  placeholders \<open>MY_GEMINI_API_KEY\<close> and \<open>undefined\<close>, \<open>generateSummary\<close> on a record
  sets the summary to the sentinel, clears the loading flag and sends no request;
  no request is sent either when there is no record. With a usable key the call
  appends exactly one request, the one built from the record.
\<close>

theorem unusable_key_substitutes_sentinel_without_request:
  assumes "k = None \<or> k = Some [] \<or> k = Some (js ''MY_GEMINI_API_KEY'') \<or> k = Some (js ''undefined'')"
  shows "aiSummary (generateSummary (Some d) k p g w) = missing_key_summary
   \<and> loadingAi (generateSummary (Some d) k p g w) = False
   \<and> requests (generateSummary dat k p g w) = requests w
   \<and> (\<not> key_unusable k' \<longrightarrow>
        requests (generateSummary (Some d) k' p g w) =
          requests w @ [\<lparr>model = js ''gemini-3-flash-preview'', contents = p d\<rparr>])"
proof -
  have ku: "key_unusable k"
    using assms by (auto simp: key_unusable_def)
  have "requests (generateSummary dat k p g w) = requests w"
    using ku by (cases dat) (simp_all add: generateSummary_unusable generateSummary_no_data)
  moreover have "requests (generateSummary (Some d) k' p g w) =
          requests w @ [\<lparr>model = js ''gemini-3-flash-preview'', contents = p d\<rparr>]"
    if "\<not> key_unusable k'"
    using that by (simp add: generateSummary_def Let_def split: reply.splits)
  ultimately show ?thesis
    using ku by (simp add: generateSummary_unusable)
qed

theorem unusable_key_substitutes_sentinel_without_request_witness:
  "aiSummary (generateSummary (Some jane_doe) None (\<lambda>d. name d) (\<lambda>r. Response (Some (contents r)))
       \<lparr>isGenerating = False, aiSummary = [], loadingAi = False, requests = [], saved = []\<rparr>)
     = missing_key_summary
   \<and> requests (generateSummary (Some jane_doe) (Some (js ''undefined'')) (\<lambda>d. name d)
       (\<lambda>r. Response (Some (contents r)))
       \<lparr>isGenerating = False, aiSummary = [], loadingAi = False, requests = [], saved = []\<rparr>) = []
   \<and> requests (generateSummary (Some jane_doe) (Some (js ''AIzaSyExampleKey'')) (\<lambda>d. name d)
       (\<lambda>r. Response (Some (contents r)))
       \<lparr>isGenerating = False, aiSummary = [], loadingAi = False, requests = [], saved = []\<rparr>)
     = [\<lparr>model = js ''gemini-3-flash-preview'', contents = js ''Jane Q. Doe''\<rparr>]"
proof -
  have ku: "\<not> key_unusable (Some (js ''AIzaSyExampleKey''))"
    by (simp add: key_unusable_def js_def)
  show ?thesis
    using unusable_key_substitutes_sentinel_without_request
        [of None jane_doe "\<lambda>d. name d" "\<lambda>r. Response (Some (contents r))"
          "\<lparr>isGenerating = False, aiSummary = [], loadingAi = False, requests = [], saved = []\<rparr>"]
      unusable_key_substitutes_sentinel_without_request
        [of "Some (js ''undefined'')" jane_doe "\<lambda>d. name d" "\<lambda>r. Response (Some (contents r))"
          "\<lparr>isGenerating = False, aiSummary = [], loadingAi = False, requests = [], saved = []\<rparr>"
          "Some jane_doe" "Some (js ''AIzaSyExampleKey'')"]
      ku
    by (simp add: jane_doe_def)
qed


section \<open>Properties of the exporter\<close>

text \<open>
  C7. When the export goes through, the file is saved under the record's name with
  white space replaced by underscores, followed by \<open>_Resume.pdf\<close>: the name has no
  white space left, a name without white space is kept as it is, and every maximal
  run of white space between two parts of the name becomes one underscore. The name
  \<open>Jane Q. Doe\<close> gives \<open>Jane_Q._Doe_Resume.pdf\<close>.
\<close>

theorem export_filename_underscored:
  "saved (downloadPDF (Some d) True True w) = saved w @ [replace_ws (name d) @ js ''_Resume.pdf'']
   \<and> \<not> list_ex is_ws (replace_ws (name d) @ js ''_Resume.pdf'')
   \<and> (\<not> list_ex is_ws (name d) \<longrightarrow> replace_ws (name d) = name d)
   \<and> (\<forall>u r v. name d = u @ r @ v \<and> r \<noteq> [] \<and> list_all is_ws r
          \<and> (u = [] \<or> \<not> is_ws (last u)) \<and> (v = [] \<or> \<not> is_ws (hd v))
        \<longrightarrow> replace_ws (name d) = replace_ws u @ underscore # replace_ws v)
   \<and> (name d = js ''Jane Q. Doe'' \<longrightarrow>
        saved (downloadPDF (Some d) True True w) = saved w @ [js ''Jane_Q._Doe_Resume.pdf''])"
proof -
  have a: "saved (downloadPDF (Some d) True True w) = saved w @ [replace_ws (name d) @ js ''_Resume.pdf'']"
    by (simp add: downloadPDF_saved pdf_filename_def)
  have b: "\<not> list_ex is_ws (replace_ws (name d) @ js ''_Resume.pdf'')"
    using replace_ws_no_ws [of "name d"] resume_suffix_no_ws by (auto simp: list_ex_iff)
  have c: "replace_ws (name d) = name d" if "\<not> list_ex is_ws (name d)"
    using that by (rule replace_ws_id)
  have e: "saved (downloadPDF (Some d) True True w) = saved w @ [js ''Jane_Q._Doe_Resume.pdf'']"
    if "name d = js ''Jane Q. Doe''"
    using that a jane_filename by simp
  have r: "replace_ws (name d) = replace_ws u @ underscore # replace_ws v"
    if "name d = u @ r @ v \<and> r \<noteq> [] \<and> list_all is_ws r
          \<and> (u = [] \<or> \<not> is_ws (last u)) \<and> (v = [] \<or> \<not> is_ws (hd v))" for u r v
  proof -
    have "replace_ws (u @ r @ v) = replace_ws u @ underscore # replace_ws v"
      using that by (intro replace_ws_run) simp_all
    then show ?thesis
      using that by simp
  qed
  show ?thesis
  proof (intro conjI allI impI)
    show "saved (downloadPDF (Some d) True True w) = saved w @ [replace_ws (name d) @ js ''_Resume.pdf'']"
      by (rule a)
    show "\<not> list_ex is_ws (replace_ws (name d) @ js ''_Resume.pdf'')"
      by (rule b)
    show "replace_ws (name d) = name d" if "\<not> list_ex is_ws (name d)"
      using that by (rule c)
    show "replace_ws (name d) = replace_ws u @ underscore # replace_ws v"
      if "name d = u @ r @ v \<and> r \<noteq> [] \<and> list_all is_ws r
          \<and> (u = [] \<or> \<not> is_ws (last u)) \<and> (v = [] \<or> \<not> is_ws (hd v))" for u r v
      using that by (rule r)
    show "saved (downloadPDF (Some d) True True w) = saved w @ [js ''Jane_Q._Doe_Resume.pdf'']"
      if "name d = js ''Jane Q. Doe''"
      using that by (rule e)
  qed
qed

theorem export_filename_underscored_witness:
  "saved (downloadPDF (Some jane_doe) True True
       \<lparr>isGenerating = False, aiSummary = [], loadingAi = False, requests = [], saved = []\<rparr>)
     = [js ''Jane_Q._Doe_Resume.pdf'']
   \<and> replace_ws (js ''Ada  Lovelace'') = js ''Ada'' @ underscore # js ''Lovelace''
   \<and> replace_ws (js ''Cher'') = js ''Cher''"
proof -
  let ?w = "\<lparr>isGenerating = False, aiSummary = [], loadingAi = False, requests = [], saved = []\<rparr>"
  let ?ada = "jane_doe\<lparr>name := js ''Ada'' @ js ''  '' @ js ''Lovelace''\<rparr>"
  let ?cher = "jane_doe\<lparr>name := js ''Cher''\<rparr>"
  have n: "name jane_doe = js ''Jane Q. Doe''"
    by (simp add: jane_doe_def)
  have "name jane_doe = js ''Jane Q. Doe'' \<longrightarrow>
      saved (downloadPDF (Some jane_doe) True True ?w) = saved ?w @ [js ''Jane_Q._Doe_Resume.pdf'']"
    using export_filename_underscored [of jane_doe ?w] by (elim conjE)
  then have first: "saved (downloadPDF (Some jane_doe) True True ?w) = [js ''Jane_Q._Doe_Resume.pdf'']"
    using n by simp
  have hy: "name ?ada = js ''Ada'' @ js ''  '' @ js ''Lovelace'' \<and> js ''  '' \<noteq> []
      \<and> list_all is_ws (js ''  '')
      \<and> (js ''Ada'' = [] \<or> \<not> is_ws (last (js ''Ada'')))
      \<and> (js ''Lovelace'' = [] \<or> \<not> is_ws (hd (js ''Lovelace'')))"
    by (simp add: js_def is_ws_def)
  have "\<forall>u r v. name ?ada = u @ r @ v \<and> r \<noteq> [] \<and> list_all is_ws r
          \<and> (u = [] \<or> \<not> is_ws (last u)) \<and> (v = [] \<or> \<not> is_ws (hd v))
        \<longrightarrow> replace_ws (name ?ada) = replace_ws u @ underscore # replace_ws v"
    using export_filename_underscored [of ?ada ?w] by (elim conjE)
  then have "replace_ws (name ?ada) = replace_ws (js ''Ada'') @ underscore # replace_ws (js ''Lovelace'')"
    using hy by (elim allE impE)
  then have second: "replace_ws (js ''Ada  Lovelace'') = js ''Ada'' @ underscore # js ''Lovelace''"
    by (simp add: js_def is_ws_def)
  have nows: "\<not> list_ex is_ws (name ?cher)"
    by (simp add: js_def is_ws_def)
  have "\<not> list_ex is_ws (name ?cher) \<longrightarrow> replace_ws (name ?cher) = name ?cher"
    using export_filename_underscored [of ?cher ?w] by (elim conjE)
  then have third: "replace_ws (js ''Cher'') = js ''Cher''"
    using nows by simp
  show ?thesis
    using first second third by (intro conjI)
qed

end
